theory Spec2Isabelle
  imports Complex_Main "HOL-Library.AList" "HOL-Library.Code_Target_Nat"
begin

section \<open>Python values and strings\<close>

text \<open>
  A Python \<open>str\<close> is modelled as a \<open>string\<close> whose characters are read as the code
  points below 256. A Python \<open>float\<close> is a finite binary fraction; it is modelled as an
  exact rational, so the rounding of floating-point arithmetic is not part of the model.
  Python's unbounded \<open>int\<close> is \<open>int\<close>.
\<close>

text \<open>One entry of the input list: \<open>{"name": ..., "id": ...}\<close>.\<close>

datatype input_info = InputInfo (info_name: string) (info_id: int)

datatype pyval =
    PNone
  | PBool bool
  | PInt int
  | PFloat rat
  | PStr string
  | PInputs "input_info list"

text \<open>
  The snapshot built by a poll cycle is a \<open>dict[str, Any]\<close>. Python dictionaries keep
  insertion order, so the model is an association list; \<open>d[k] = v\<close> is
  \<open>AList.update k v d\<close> (replace in place, or append).
\<close>

type_synonym snapshot = "(string \<times> pyval) list"

definition dict_get :: "snapshot \<Rightarrow> string \<Rightarrow> pyval" where
  \<comment> \<open>\<open>d.get(k)\<close>: \<open>None\<close> for an absent key\<close>
  "dict_get d k = (case map_of d k of None \<Rightarrow> PNone | Some v \<Rightarrow> v)"

fun num_of :: "pyval \<Rightarrow> rat option" where
  "num_of (PBool b) = Some (if b then 1 else 0)"
| "num_of (PInt i) = Some (of_int i)"
| "num_of (PFloat r) = Some r"
| "num_of PNone = None"
| "num_of (PStr s) = None"
| "num_of (PInputs l) = None"

definition py_eq :: "pyval \<Rightarrow> pyval \<Rightarrow> bool" where
  \<comment> \<open>Python's \<open>==\<close>: numbers (bool, int, float) compare by value, everything else structurally\<close>
  "py_eq a b =
     (case (num_of a, num_of b) of
        (Some x, Some y) \<Rightarrow> x = y
      | (None, None) \<Rightarrow> a = b
      | _ \<Rightarrow> False)"

definition is_space :: "char \<Rightarrow> bool" where
  \<comment> \<open>\<open>str.isspace\<close> on the code points below 256\<close>
  "is_space c = (of_char c \<in> {9, 10, 11, 12, 13, 28, 29, 30, 31, 32, 133, 160 :: nat})"

definition py_strip :: "string \<Rightarrow> string" where
  \<comment> \<open>\<open>s.strip()\<close>\<close>
  "py_strip s = rev (dropWhile is_space (rev (dropWhile is_space s)))"

definition startswith :: "string \<Rightarrow> string \<Rightarrow> bool" where
  \<comment> \<open>\<open>s.startswith(p)\<close>, the prefix first\<close>
  "startswith p s = (take (length p) s = p)"

fun contains :: "string \<Rightarrow> string \<Rightarrow> bool" where
  \<comment> \<open>\<open>sub in s\<close>, the substring first\<close>
  "contains sub [] = (sub = [])"
| "contains sub (c # cs) = (startswith sub (c # cs) \<or> contains sub cs)"

fun find_char :: "char \<Rightarrow> string \<Rightarrow> nat" where
  \<comment> \<open>\<open>s.find(c)\<close> for a character that occurs in \<open>s\<close> (the callers test \<open>c in s\<close> first)\<close>
  "find_char c [] = 0"
| "find_char c (x # xs) = (if x = c then 0 else Suc (find_char c xs))"

definition slice :: "string \<Rightarrow> nat \<Rightarrow> nat \<Rightarrow> string" where
  \<comment> \<open>\<open>s[a:b]\<close> for non-negative bounds; empty when \<open>b \<le> a\<close>\<close>
  "slice s a b = drop a (take b s)"

definition bracketed :: "string \<Rightarrow> string option" where
  \<comment> \<open>The text between the first \<open>[\<close> and the first \<open>]\<close>, as the three decoders cut it:
      \<open>if "[" in response and "]" in response: response[find("[") + 1 : find("]")]\<close>\<close>
  "bracketed response =
     (if CHR ''['' \<in> set response \<and> CHR '']'' \<in> set response
      then Some (slice response (find_char CHR ''['' response + 1) (find_char CHR '']'' response))
      else None)"

subsection \<open>Printing and reading numbers\<close>

definition digit_char :: "nat \<Rightarrow> char" where
  "digit_char n = ''0123456789'' ! (n mod 10)"

fun str_nat :: "nat \<Rightarrow> string" where
  "str_nat n = (if n < 10 then [digit_char n] else str_nat (n div 10) @ [digit_char n])"

declare str_nat.simps [simp del]

definition str_int :: "int \<Rightarrow> string" where
  \<comment> \<open>\<open>str(i)\<close>, what an f-string prints for an int\<close>
  "str_int i = (if i < 0 then CHR ''-'' # str_nat (nat (- i)) else str_nat (nat i))"


definition is_digit :: "char \<Rightarrow> bool" where
  "is_digit c = (c \<in> set ''0123456789'')"

definition digit_val :: "char \<Rightarrow> nat" where
  "digit_val c = of_char c - 48"

definition nat_of_digits :: "string \<Rightarrow> nat" where
  "nat_of_digits s = foldl (\<lambda>acc c. 10 * acc + digit_val c) 0 s"

fun no_double_underscore :: "string \<Rightarrow> bool" where
  "no_double_underscore (a # b # cs) =
     (\<not> (a = CHR ''_'' \<and> b = CHR ''_'') \<and> no_double_underscore (b # cs))"
| "no_double_underscore cs = True"

definition digit_part :: "string \<Rightarrow> bool" where
  \<comment> \<open>Python's \<open>digitpart\<close>: digits, with single underscores between digits\<close>
  "digit_part s =
     (s \<noteq> [] \<and> list_all (\<lambda>c. is_digit c \<or> c = CHR ''_'') s \<and>
      is_digit (hd s) \<and> is_digit (last s) \<and> no_double_underscore s)"

definition digits_only :: "string \<Rightarrow> string" where
  "digits_only s = filter is_digit s"

definition split_sign :: "string \<Rightarrow> bool \<times> string" where
  \<comment> \<open>an optional sign: (negative, the rest)\<close>
  "split_sign s =
     (case s of
        [] \<Rightarrow> (False, [])
      | c # r \<Rightarrow>
          if c = CHR ''-'' then (True, r)
          else if c = CHR ''+'' then (False, r)
          else (False, s))"

definition py_int :: "string \<Rightarrow> int option" where
  \<comment> \<open>\<open>int(s)\<close> in base 10 on ASCII digits; \<open>None\<close> is \<open>ValueError\<close>\<close>
  "py_int s =
     (let (neg, body) = split_sign (py_strip s) in
      if digit_part body
      then Some ((if neg then - 1 else 1) * int (nat_of_digits (digits_only body)))
      else None)"

definition py_float :: "string \<Rightarrow> rat option" where
  \<comment> \<open>\<open>float(s)\<close> on the decimal notation of the protocol (an integer or a signed
      decimal fraction); \<open>None\<close> is \<open>ValueError\<close>. Python's \<open>float\<close> also reads
      exponents, \<open>inf\<close> and \<open>nan\<close>; a reply in one of those forms is outside the model.\<close>
  "py_float s =
     (let (neg, body) = split_sign (py_strip s);
          ip = takeWhile (\<lambda>c. c \<noteq> CHR ''.'') body;
          rest = dropWhile (\<lambda>c. c \<noteq> CHR ''.'') body;
          fp = (case rest of [] \<Rightarrow> [] | d # r \<Rightarrow> r);
          sgn = (if neg then - 1 else 1 :: rat)
      in if (ip = [] \<or> digit_part ip) \<and> (fp = [] \<or> digit_part fp) \<and> \<not> (ip = [] \<and> fp = [])
         then Some (sgn * (of_nat (nat_of_digits (digits_only ip)) +
                           of_nat (nat_of_digits (digits_only fp)) / 10 ^ length (digits_only fp)))
         else None)"

section \<open>Constants (const.py)\<close>

definition CMD_POWER_ON :: string where "CMD_POWER_ON = ''ssp.power.on''"
definition CMD_POWER_OFF :: string where "CMD_POWER_OFF = ''ssp.power.off''"
definition CMD_POWER_QUERY :: string where "CMD_POWER_QUERY = ''ssp.power''"
definition CMD_VOLUME_SET :: string where "CMD_VOLUME_SET = ''ssp.vol.''"
definition CMD_VOLUME_QUERY :: string where "CMD_VOLUME_QUERY = ''ssp.vol''"
definition CMD_VOLUME_UP :: string where "CMD_VOLUME_UP = ''ssp.vol.up''"
definition CMD_VOLUME_DOWN :: string where "CMD_VOLUME_DOWN = ''ssp.vol.down''"
definition CMD_MUTE_ON :: string where "CMD_MUTE_ON = ''ssp.mute.on''"
definition CMD_MUTE_OFF :: string where "CMD_MUTE_OFF = ''ssp.mute.off''"
definition CMD_MUTE_QUERY :: string where "CMD_MUTE_QUERY = ''ssp.mute''"
definition CMD_INPUT_SET :: string where "CMD_INPUT_SET = ''ssp.input.''"
definition CMD_INPUT_QUERY :: string where "CMD_INPUT_QUERY = ''ssp.input''"
definition CMD_INPUT_LIST :: string where "CMD_INPUT_LIST = ''ssp.input.list''"
definition CMD_PROC_STATE :: string where "CMD_PROC_STATE = ''ssp.procstate''"
definition STATE_ON :: string where "STATE_ON = ''on''"
definition STATE_OFF :: string where "STATE_OFF = ''off''"

lemmas const_defs =
  CMD_POWER_ON_def CMD_POWER_OFF_def CMD_POWER_QUERY_def CMD_VOLUME_SET_def
  CMD_VOLUME_QUERY_def CMD_VOLUME_UP_def CMD_VOLUME_DOWN_def CMD_MUTE_ON_def
  CMD_MUTE_OFF_def CMD_MUTE_QUERY_def CMD_INPUT_SET_def CMD_INPUT_QUERY_def
  CMD_INPUT_LIST_def CMD_PROC_STATE_def STATE_ON_def STATE_OFF_def

section \<open>The device and the event loop\<close>

text \<open>
  The outside world of the client: the clock of the event loop (in milliseconds), the
  outcomes of the connection attempts still to come, the lines on their way from the
  device with their arrival times, the outcomes of the writes still to come, and what
  has been written and logged so far. The client runs on it sequentially (the lock of
  \<open>StormAudioAPI\<close> serialises its operations); computing takes no time, only waiting
  does.
\<close>

datatype item =
    Line string      \<comment> \<open>a line of text as \<open>readline()\<close> returns it, terminator included\<close>
  | Undecodable      \<comment> \<open>a line whose bytes \<open>decode()\<close> rejects\<close>
  | Eof              \<comment> \<open>the peer closed the stream: \<open>readline()\<close> returns \<open>b''\<close> from now on\<close>
  | Broken           \<comment> \<open>the connection failed: \<open>readline()\<close> raises from now on\<close>

datatype conn_result =
    Refused
  | Accepted "(nat \<times> item) list" bool
      \<comment> \<open>the stream of the new connection, arrival times counted from the moment of
          connection, and whether \<open>wait_closed()\<close> will raise when it is closed\<close>

datatype log_entry =
    ConnectFailed
  | NoMatchingResponse string
  | QueryFailed string
  | CommandFailed string
  | UpdateError
  | PowerOnSlow

text \<open>Only the log calls at warning and error level are recorded.\<close>

record world =
  now :: nat
  connects :: "conn_result list"
  incoming :: "(nat \<times> item) list"
  close_raises :: bool
  writes :: "bool list"
  sent :: "string list"
  logged :: "log_entry list"

datatype exn = ConnectionError | TypeError | UpdateFailed


definition readline :: "nat \<Rightarrow> world \<Rightarrow> item option \<times> world" where
  \<comment> \<open>\<open>await asyncio.wait_for(reader.readline(), timeout)\<close>: the next item if it arrives
      before the timeout, else \<open>None\<close> (\<open>TimeoutError\<close>) once the timeout has passed.
      A line is consumed; the end of the stream and a failure stay.\<close>
  "readline timeout w =
     (case incoming w of
        [] \<Rightarrow> (None, w\<lparr>now := now w + timeout\<rparr>)
      | (t, x) # rest \<Rightarrow>
          if t < now w + timeout
          then (Some x, w\<lparr>now := max (now w) t,
                           incoming := (if x = Eof \<or> x = Broken then incoming w else rest)\<rparr>)
          else (None, w\<lparr>now := now w + timeout\<rparr>))"

definition write_drain :: "string \<Rightarrow> world \<Rightarrow> bool \<times> world" where
  \<comment> \<open>\<open>writer.write(f"{command}\n".encode()); await writer.drain()\<close>: \<open>False\<close> when it
      raises. With no outcome listed the write succeeds.\<close>
  "write_drain command w =
     (case writes w of
        [] \<Rightarrow> (True, w\<lparr>sent := sent w @ [command @ [CHR 10]]\<rparr>)
      | ok # rest \<Rightarrow>
          if ok then (True, w\<lparr>writes := rest, sent := sent w @ [command @ [CHR 10]]\<rparr>)
          else (False, w\<lparr>writes := rest\<rparr>))"

section \<open>StormAudioAPI (custom\_components/stormaudio/media\_player.py)\<close>

record StormAudioAPI =
  host :: string
  port :: nat
  writer :: bool  \<comment> \<open>\<open>self._writer is not None\<close>; \<open>self._reader\<close> is set and cleared with it\<close>

function clear_loop :: "nat \<Rightarrow> world \<Rightarrow> world" where
  "clear_loop start_time w =
     (if now w - start_time < 2000 then
        (case readline 100 w of
           (None, w') \<Rightarrow> w'
         | (Some (Line response), w') \<Rightarrow>
             if response = [] then w' else clear_loop start_time w'
         | (Some Undecodable, w') \<Rightarrow> w'
         | (Some Eof, w') \<Rightarrow> w'
         | (Some Broken, w') \<Rightarrow> w')
      else w)"
  by pat_completeness auto
termination
  by (relation "measure (\<lambda>(start_time, w). length (incoming w))")
     (auto simp: readline_def split: list.splits if_splits)

declare clear_loop.simps [simp del]

definition clear_initial_responses :: "world \<Rightarrow> world" where
  "clear_initial_responses w = clear_loop (now w) w"

definition connect :: "StormAudioAPI \<Rightarrow> world \<Rightarrow> bool \<times> StormAudioAPI \<times> world" where
  \<comment> \<open>With no outcome listed the attempt fails.\<close>
  "connect a w =
     (case connects w of
        [] \<Rightarrow> (False, a, w\<lparr>logged := logged w @ [ConnectFailed]\<rparr>)
      | Refused # rest \<Rightarrow>
          (False, a, w\<lparr>connects := rest, logged := logged w @ [ConnectFailed]\<rparr>)
      | Accepted stream cr # rest \<Rightarrow>
          (True, a\<lparr>writer := True\<rparr>,
           clear_initial_responses
             (w\<lparr>connects := rest,
                incoming := map (\<lambda>(t, x). (now w + t, x)) stream,
                close_raises := cr\<rparr>)))"

definition disconnect :: "StormAudioAPI \<Rightarrow> world \<Rightarrow> (exn + unit) \<times> StormAudioAPI \<times> world" where
  \<comment> \<open>\<open>wait_closed()\<close> may raise; the two fields are cleared only after it\<close>
  "disconnect a w =
     (if writer a
      then (if close_raises w then (Inl ConnectionError, a, w)
            else (Inr (), a\<lparr>writer := False\<rparr>, w))
      else (Inr (), a, w))"

definition get_expected_response_prefix :: "string \<Rightarrow> string" where
  "get_expected_response_prefix command =
     (if command = CMD_POWER_QUERY then ''ssp.power.''
      else if command = CMD_VOLUME_QUERY then ''ssp.vol.''
      else if command = CMD_MUTE_QUERY then ''ssp.mute.''
      else if command = CMD_INPUT_QUERY then ''ssp.input.''
      else if command = CMD_PROC_STATE then ''ssp.procstate.''
      else ''ssp.'')"

datatype loop_result =
    Matched string   \<comment> \<open>\<open>return line\<close>\<close>
  | Exhausted        \<comment> \<open>the loop ended: the time was up, or the stream was at its end\<close>
  | Raised           \<comment> \<open>an exception left the loop\<close>

function query_loop :: "string \<Rightarrow> nat \<Rightarrow> world \<Rightarrow> loop_result \<times> world" where
  "query_loop target_prefix start_time w =
     (if now w - start_time < 3000 then
        (case readline 200 w of
           (None, w') \<Rightarrow> query_loop target_prefix start_time w'
         | (Some (Line response), w') \<Rightarrow>
             if response = [] then (Exhausted, w')
             else if startswith target_prefix (py_strip response)
             then (Matched (py_strip response), w')
             else query_loop target_prefix start_time w'
         | (Some Undecodable, w') \<Rightarrow> (Raised, w')
         | (Some Eof, w') \<Rightarrow> (Exhausted, w')
         | (Some Broken, w') \<Rightarrow> (Raised, w'))
      else (Exhausted, w))"
  by pat_completeness auto
termination
  by (relation "measures [\<lambda>(p, start_time, w). length (incoming w),
                          \<lambda>(p, start_time, w). start_time + 3000 - now w]")
     (auto simp: readline_def split: list.splits if_splits)

declare query_loop.simps [simp del]

definition query_failed ::
  "string \<Rightarrow> StormAudioAPI \<Rightarrow> world \<Rightarrow> (exn + string option) \<times> StormAudioAPI \<times> world" where
  \<comment> \<open>the handler of \<open>send_query\<close>: log, disconnect, \<open>return None\<close>\<close>
  "query_failed command a w =
     (case disconnect a (w\<lparr>logged := logged w @ [QueryFailed command]\<rparr>) of
        (Inl e, a', w') \<Rightarrow> (Inl e, a', w')
      | (Inr u, a', w') \<Rightarrow> (Inr None, a', w'))"

definition send_query ::
  "StormAudioAPI \<Rightarrow> world \<Rightarrow> string \<Rightarrow> (exn + string option) \<times> StormAudioAPI \<times> world" where
  "send_query a w command =
     (case (if \<not> writer a then connect a w else (True, a, w)) of
        (False, a1, w1) \<Rightarrow> (Inr None, a1, w1)
      | (True, a1, w1) \<Rightarrow>
          (case write_drain command w1 of
             (False, w2) \<Rightarrow> query_failed command a1 w2
           | (True, w2) \<Rightarrow>
               (case query_loop (get_expected_response_prefix command) (now w2) w2 of
                  (Matched line, w3) \<Rightarrow> (Inr (Some line), a1, w3)
                | (Exhausted, w3) \<Rightarrow>
                    (Inr None, a1, w3\<lparr>logged := logged w3 @ [NoMatchingResponse command]\<rparr>)
                | (Raised, w3) \<Rightarrow> query_failed command a1 w3)))"

definition command_failed ::
  "string \<Rightarrow> StormAudioAPI \<Rightarrow> world \<Rightarrow> (exn + bool) \<times> StormAudioAPI \<times> world" where
  \<comment> \<open>the handler of \<open>send_command\<close>: log, disconnect, \<open>return False\<close>\<close>
  "command_failed command a w =
     (case disconnect a (w\<lparr>logged := logged w @ [CommandFailed command]\<rparr>) of
        (Inl e, a', w') \<Rightarrow> (Inl e, a', w')
      | (Inr u, a', w') \<Rightarrow> (Inr False, a', w'))"

definition send_command ::
  "StormAudioAPI \<Rightarrow> world \<Rightarrow> string \<Rightarrow> (exn + bool) \<times> StormAudioAPI \<times> world" where
  "send_command a w command =
     (case (if \<not> writer a then connect a w else (True, a, w)) of
        (False, a1, w1) \<Rightarrow> (Inr False, a1, w1)
      | (True, a1, w1) \<Rightarrow>
          (case write_drain command w1 of
             (False, w2) \<Rightarrow> command_failed command a1 w2
           | (True, w2) \<Rightarrow> (Inr True, a1, w2)))"

subsection \<open>Queries\<close>

definition get_power_state ::
  "StormAudioAPI \<Rightarrow> world \<Rightarrow> (exn + pyval) \<times> StormAudioAPI \<times> world" where
  "get_power_state a w =
     (case send_query a w CMD_POWER_QUERY of
        (Inl e, a', w') \<Rightarrow> (Inl e, a', w')
      | (Inr None, a', w') \<Rightarrow> (Inr PNone, a', w')
      | (Inr (Some response), a', w') \<Rightarrow>
          (Inr (if response \<noteq> [] \<and> contains ''ssp.power.on'' response then PStr STATE_ON
                else if response \<noteq> [] \<and> contains ''ssp.power.off'' response then PStr STATE_OFF
                else PNone), a', w'))"

definition decode_volume :: "string \<Rightarrow> pyval" where
  \<comment> \<open>the body of \<open>get_volume\<close> after the query: \<open>max(-100, min(0, float(...)))\<close>, where
      \<open>min\<close> and \<open>max\<close> return the int bound when the float does not beat it\<close>
  "decode_volume response =
     (if response \<noteq> [] \<and> contains ''ssp.vol.'' response then
        (case bracketed response of
           None \<Rightarrow> PNone
         | Some volume_str \<Rightarrow>
             (case py_float volume_str of
                None \<Rightarrow> PNone
              | Some volume \<Rightarrow>
                  if 0 \<le> volume then PInt 0
                  else if volume \<le> - 100 then PInt (- 100)
                  else PFloat volume))
      else PNone)"

definition get_volume ::
  "StormAudioAPI \<Rightarrow> world \<Rightarrow> (exn + pyval) \<times> StormAudioAPI \<times> world" where
  "get_volume a w =
     (case send_query a w CMD_VOLUME_QUERY of
        (Inl e, a', w') \<Rightarrow> (Inl e, a', w')
      | (Inr None, a', w') \<Rightarrow> (Inr PNone, a', w')
      | (Inr (Some response), a', w') \<Rightarrow> (Inr (decode_volume response), a', w'))"

definition get_mute_state ::
  "StormAudioAPI \<Rightarrow> world \<Rightarrow> (exn + pyval) \<times> StormAudioAPI \<times> world" where
  "get_mute_state a w =
     (case send_query a w CMD_MUTE_QUERY of
        (Inl e, a', w') \<Rightarrow> (Inl e, a', w')
      | (Inr None, a', w') \<Rightarrow> (Inr PNone, a', w')
      | (Inr (Some response), a', w') \<Rightarrow>
          (Inr (if response \<noteq> [] \<and> contains ''ssp.mute.on'' response then PBool True
                else if response \<noteq> [] \<and> contains ''ssp.mute.off'' response then PBool False
                else PNone), a', w'))"

definition decode_int :: "string \<Rightarrow> string \<Rightarrow> pyval" where
  \<comment> \<open>the body shared by \<open>get_input\<close> and \<open>get_processor_state\<close> after the query\<close>
  "decode_int marker response =
     (if response \<noteq> [] \<and> contains marker response then
        (case bracketed response of
           None \<Rightarrow> PNone
         | Some digits \<Rightarrow> (case py_int digits of None \<Rightarrow> PNone | Some i \<Rightarrow> PInt i))
      else PNone)"

definition get_input ::
  "StormAudioAPI \<Rightarrow> world \<Rightarrow> (exn + pyval) \<times> StormAudioAPI \<times> world" where
  "get_input a w =
     (case send_query a w CMD_INPUT_QUERY of
        (Inl e, a', w') \<Rightarrow> (Inl e, a', w')
      | (Inr None, a', w') \<Rightarrow> (Inr PNone, a', w')
      | (Inr (Some response), a', w') \<Rightarrow> (Inr (decode_int ''ssp.input.'' response), a', w'))"

definition get_processor_state ::
  "StormAudioAPI \<Rightarrow> world \<Rightarrow> (exn + pyval) \<times> StormAudioAPI \<times> world" where
  \<comment> \<open>0 = sleep, 1 = initializing, 2 = on\<close>
  "get_processor_state a w =
     (case send_query a w CMD_PROC_STATE of
        (Inl e, a', w') \<Rightarrow> (Inl e, a', w')
      | (Inr None, a', w') \<Rightarrow> (Inr PNone, a', w')
      | (Inr (Some response), a', w') \<Rightarrow>
          (Inr (decode_int ''ssp.procstate.'' response), a', w'))"

subsection \<open>Commands\<close>




definition set_mute ::
  "StormAudioAPI \<Rightarrow> world \<Rightarrow> bool \<Rightarrow> (exn + bool) \<times> StormAudioAPI \<times> world" where
  "set_mute a w muted = send_command a w (if muted then CMD_MUTE_ON else CMD_MUTE_OFF)"

definition set_input ::
  "StormAudioAPI \<Rightarrow> world \<Rightarrow> int \<Rightarrow> (exn + bool) \<times> StormAudioAPI \<times> world" where
  "set_input a w input_id = send_command a w (CMD_INPUT_SET @ ''['' @ str_int input_id @ '']'')"

section \<open>StormAudioDataUpdateCoordinator\<close>

record coordinator =
  api :: StormAudioAPI
  last_power_command_time :: nat
  power_on_polling_active :: bool
  data :: "snapshot option"                      \<comment> \<open>\<open>self.data\<close>, \<open>None\<close> before the first refresh\<close>
  input_list_cached :: "input_info list option"  \<comment> \<open>\<open>None\<close>: the attribute is not set yet\<close>

definition get_input_list :: "input_info list" where
  "get_input_list = [InputInfo ''Apple TV'' 1, InputInfo ''Video Game'' 2, InputInfo ''HDMI 3'' 3]"

definition update_failed ::
  "StormAudioAPI \<Rightarrow> world \<Rightarrow> (exn + snapshot) \<times> StormAudioAPI \<times> world" where
  \<comment> \<open>the handler of \<open>_async_update_data\<close>: log, \<open>raise UpdateFailed\<close>\<close>
  "update_failed a w = (Inl UpdateFailed, a, w\<lparr>logged := logged w @ [UpdateError]\<rparr>)"

definition query_controls ::
  "snapshot \<Rightarrow> StormAudioAPI \<Rightarrow> world \<Rightarrow> (exn + snapshot) \<times> StormAudioAPI \<times> world" where
  \<comment> \<open>the branch taken when the processor is fully on\<close>
  "query_controls d a w =
     (case get_volume a w of
        (Inl e, a1, w1) \<Rightarrow> (Inl e, a1, w1)
      | (Inr volume, a1, w1) \<Rightarrow>
     (case get_mute_state a1 w1 of
        (Inl e, a2, w2) \<Rightarrow> (Inl e, a2, w2)
      | (Inr muted, a2, w2) \<Rightarrow>
     (case get_input a2 w2 of
        (Inl e, a3, w3) \<Rightarrow> (Inl e, a3, w3)
      | (Inr inp, a3, w3) \<Rightarrow>
          (Inr (AList.update ''input'' inp
                 (AList.update ''muted'' muted
                   (AList.update ''volume'' volume d))), a3, w3))))"

definition clear_controls :: "snapshot \<Rightarrow> snapshot" where
  \<comment> \<open>the other branch\<close>
  "clear_controls d =
     AList.update ''input'' PNone
       (AList.update ''muted'' PNone
         (AList.update ''volume'' PNone d))"

definition poll_states ::
  "StormAudioAPI \<Rightarrow> world \<Rightarrow> (exn + snapshot) \<times> StormAudioAPI \<times> world" where
  \<comment> \<open>the body of the \<open>try\<close> up to the input list\<close>
  "poll_states a w =
     (case get_power_state a w of
        (Inl e, a1, w1) \<Rightarrow> (Inl e, a1, w1)
      | (Inr power_state, a1, w1) \<Rightarrow>
     (case get_processor_state a1 w1 of
        (Inl e, a2, w2) \<Rightarrow> (Inl e, a2, w2)
      | (Inr processor_state, a2, w2) \<Rightarrow>
          (let d = AList.update ''processor_state'' processor_state
                     (AList.update ''power_state'' power_state [])
           in if py_eq (dict_get d ''processor_state'') (PInt 2)
              then query_controls d a2 w2
              else (Inr (clear_controls d), a2, w2))))"

definition async_update_data ::
  "coordinator \<Rightarrow> world \<Rightarrow> (exn + snapshot) \<times> coordinator \<times> world" where
  "async_update_data c w =
     (case poll_states (api c) w of
        (Inl e, a', w') \<Rightarrow>
          (case update_failed a' w' of (r, a'', w'') \<Rightarrow> (r, c\<lparr>api := a''\<rparr>, w''))
      | (Inr d, a', w') \<Rightarrow>
          (let cached = (case input_list_cached c of
                           None \<Rightarrow> get_input_list
                         | Some l \<Rightarrow> l)
           in (Inr (AList.update ''input_list'' (PInputs cached) d),
               c\<lparr>api := a', input_list_cached := Some cached\<rparr>, w')))"







section \<open>StormAudioMediaPlayer\<close>

datatype MediaPlayerState = OFF | ON | BUFFERING

definition state :: "snapshot \<Rightarrow> MediaPlayerState" where
  \<comment> \<open>the property \<open>state\<close>, on \<open>self.coordinator.data\<close>\<close>
  "state d =
     (let power_state = dict_get d ''power_state'';
          processor_state = dict_get d ''processor_state''
      in if py_eq power_state (PStr STATE_OFF) then OFF
         else if py_eq processor_state (PInt 1) then BUFFERING
         else if py_eq processor_state (PInt 2) then ON
         else OFF)"


section \<open>Example states\<close>

text \<open>Concrete states on which the theorems below are evaluated.\<close>

definition quiet_world :: world where
  \<comment> \<open>nothing on its way, no connection outcome listed\<close>
  "quiet_world =
     \<lparr>now = 0, connects = [], incoming = [], close_raises = False, writes = [], sent = [],
      logged = []\<rparr>"

definition fresh_api :: StormAudioAPI where
  \<comment> \<open>the client as \<open>__init__\<close> leaves it\<close>
  "fresh_api = \<lparr>host = ''storm'', port = 23, writer = False\<rparr>"

definition online_api :: StormAudioAPI where
  \<comment> \<open>the client with an open connection\<close>
  "online_api = \<lparr>host = ''storm'', port = 23, writer = True\<rparr>"

definition fresh_coordinator :: coordinator where
  \<comment> \<open>the coordinator as \<open>__init__\<close> leaves it\<close>
  "fresh_coordinator =
     \<lparr>api = fresh_api, last_power_command_time = 0, power_on_polling_active = False,
      data = None, input_list_cached = None\<rparr>"



definition online_coordinator :: coordinator where
  "online_coordinator = fresh_coordinator\<lparr>api := online_api\<rparr>"


definition device_on_world :: world where
  \<comment> \<open>A device that is fully on, accepts the connection and answers the five queries of
      a poll cycle.\<close>
  "device_on_world =
     quiet_world\<lparr>connects :=
       [Accepted [(300, Line ''ssp.power.on\<newline>''), (400, Line ''ssp.procstate.[2]\<newline>''),
                  (500, Line ''ssp.vol.[-42.0]\<newline>''), (600, Line ''ssp.mute.off\<newline>''),
                  (700, Line ''ssp.input.[3]\<newline>'')] False]\<rparr>"

section \<open>Relations between worlds\<close>

definition same_session :: "world \<Rightarrow> world \<Rightarrow> bool" where
  \<comment> \<open>reading changes the clock and the incoming stream, nothing else\<close>
  "same_session w w' =
     (connects w' = connects w \<and> close_raises w' = close_raises w \<and> writes w' = writes w \<and>
      sent w' = sent w \<and> logged w' = logged w)"

definition closes_quietly :: "world \<Rightarrow> bool" where
  \<comment> \<open>closing a connection, the open one or one still to come, never raises\<close>
  "closes_quietly w =
     (\<not> close_raises w \<and>
      list_all (\<lambda>r. case r of Refused \<Rightarrow> True | Accepted stream cr \<Rightarrow> \<not> cr) (connects w))"



section \<open>Volume conversion\<close>










section \<open>The state shown to the caller\<close>

text \<open>
  C10: for every snapshot whose \<open>processor_state\<close> is neither 1 nor 2, whatever
  \<open>power_state\<close> is, and also when either field is \<open>None\<close> or absent, the property
  \<open>state\<close> is \<open>OFF\<close>.
\<close>

theorem state_off_unless_processor_running:
  assumes "\<not> py_eq (dict_get d ''processor_state'') (PInt 1)"
    and "\<not> py_eq (dict_get d ''processor_state'') (PInt 2)"
  shows "state d = OFF"
  using assms by (simp add: state_def Let_def)

theorem state_off_unless_processor_running_witness:
  "state [] = OFF \<and>
   state [(''power_state'', PNone), (''processor_state'', PNone)] = OFF \<and>
   state [(''power_state'', PStr ''on''), (''processor_state'', PInt 0)] = OFF \<and>
   state [(''power_state'', PStr ''on''), (''processor_state'', PInt 7)] = OFF"
proof -
  have "state [] = OFF"
    by (rule state_off_unless_processor_running) (simp_all add: dict_get_def py_eq_def)
  moreover have "state [(''power_state'', PNone), (''processor_state'', PNone)] = OFF"
    by (rule state_off_unless_processor_running) (simp_all add: dict_get_def py_eq_def)
  moreover have "state [(''power_state'', PStr ''on''), (''processor_state'', PInt 0)] = OFF"
    by (rule state_off_unless_processor_running) (simp_all add: dict_get_def py_eq_def)
  moreover have "state [(''power_state'', PStr ''on''), (''processor_state'', PInt 7)] = OFF"
    by (rule state_off_unless_processor_running) (simp_all add: dict_get_def py_eq_def)
  ultimately show ?thesis by simp
qed

section \<open>Reading from the device\<close>

lemma same_session_refl: "same_session w w"
  by (simp add: same_session_def)

lemma same_session_trans: "same_session w w' \<Longrightarrow> same_session w' w'' \<Longrightarrow> same_session w w''"
  by (simp add: same_session_def)

lemma readline_same_session: "readline timeout w = (x, y) \<Longrightarrow> same_session w y"
  by (auto simp: readline_def same_session_def split: list.splits if_splits)




lemma clear_loop_stop: "\<not> now w - start < 2000 \<Longrightarrow> clear_loop start w = w"
  by (simp only: clear_loop.simps [of start w]) simp

lemma clear_loop_next:
  "now w - start < 2000 \<Longrightarrow> readline 100 w = (Some (Line s), y) \<Longrightarrow> s \<noteq> [] \<Longrightarrow>
   clear_loop start w = clear_loop start y"
  by (simp only: clear_loop.simps [of start w]) simp

lemma clear_loop_leave:
  "now w - start < 2000 \<Longrightarrow> readline 100 w = (x, y) \<Longrightarrow>
   \<forall>s. x = Some (Line s) \<longrightarrow> s = [] \<Longrightarrow> clear_loop start w = y"
  by (simp only: clear_loop.simps [of start w])
     (simp split: option.splits item.splits)

lemma query_loop_stop: "\<not> now w - start < 3000 \<Longrightarrow> query_loop p start w = (Exhausted, w)"
  by (simp only: query_loop.simps [of p start w]) simp

lemma query_loop_timeout:
  "now w - start < 3000 \<Longrightarrow> readline 200 w = (None, y) \<Longrightarrow>
   query_loop p start w = query_loop p start y"
  by (simp only: query_loop.simps [of p start w]) simp

lemma query_loop_skip:
  "now w - start < 3000 \<Longrightarrow> readline 200 w = (Some (Line s), y) \<Longrightarrow> s \<noteq> [] \<Longrightarrow>
   \<not> startswith p (py_strip s) \<Longrightarrow> query_loop p start w = query_loop p start y"
  by (simp only: query_loop.simps [of p start w]) simp

lemma query_loop_match:
  "now w - start < 3000 \<Longrightarrow> readline 200 w = (Some (Line s), y) \<Longrightarrow> s \<noteq> [] \<Longrightarrow>
   startswith p (py_strip s) \<Longrightarrow> query_loop p start w = (Matched (py_strip s), y)"
  by (simp only: query_loop.simps [of p start w]) simp

lemma query_loop_leave:
  "now w - start < 3000 \<Longrightarrow> readline 200 w = (Some x, y) \<Longrightarrow>
   \<forall>s. x = Line s \<longrightarrow> s = [] \<Longrightarrow>
   query_loop p start w = (if x = Undecodable \<or> x = Broken then Raised else Exhausted, y)"
  by (simp only: query_loop.simps [of p start w])
     (simp split: item.splits)

lemma clear_loop_same_session: "same_session w (clear_loop start w)"
proof (induction start w rule: clear_loop.induct)
  case (1 start w)
  obtain x y where rl: "readline 100 w = (x, y)" by (cases "readline 100 w")
  note fr = readline_same_session [OF rl]
  show ?case
  proof (cases "now w - start < 2000")
    case False
    then show ?thesis by (simp add: clear_loop_stop same_session_refl)
  next
    case t: True
    show ?thesis
    proof (cases "\<exists>s. x = Some (Line s) \<and> s \<noteq> []")
      case True
      then obtain s where s: "x = Some (Line s)" "s \<noteq> []" by blast
      have "same_session y (clear_loop start y)"
        by (rule "1.IH" [OF t rl [symmetric] s(1) refl s(2)])
      moreover have "clear_loop start w = clear_loop start y"
        using t rl s by (simp add: clear_loop_next)
      ultimately show ?thesis using fr by (auto intro: same_session_trans)
    next
      case False
      then have "clear_loop start w = y"
        using t rl by (intro clear_loop_leave [of w start x y]) auto
      then show ?thesis using fr by simp
    qed
  qed
qed

lemma query_loop_same_session: "same_session w (snd (query_loop p start w))"
proof (induction p start w rule: query_loop.induct)
  case (1 p start w)
  obtain x y where rl: "readline 200 w = (x, y)" by (cases "readline 200 w")
  note fr = readline_same_session [OF rl]
  consider (stop) "\<not> now w - start < 3000"
    | (timeout) "now w - start < 3000" "x = None"
    | (skip) s where "now w - start < 3000" "x = Some (Line s)" "s \<noteq> []"
        "\<not> startswith p (py_strip s)"
    | (match) s where "now w - start < 3000" "x = Some (Line s)" "s \<noteq> []"
        "startswith p (py_strip s)"
    | (leave) z where "now w - start < 3000" "x = Some z" "\<forall>s. z = Line s \<longrightarrow> s = []"
    by (cases x) (auto, blast)
  then show ?case
  proof cases
    case stop
    then show ?thesis by (simp add: query_loop_stop same_session_refl)
  next
    case timeout
    have "same_session y (snd (query_loop p start y))"
      by (rule "1.IH"(1) [OF timeout(1) rl [symmetric] timeout(2)])
    moreover have "query_loop p start w = query_loop p start y"
      using rl timeout by (simp add: query_loop_timeout)
    ultimately show ?thesis using fr by (auto intro: same_session_trans)
  next
    case skip
    have "same_session y (snd (query_loop p start y))"
      by (rule "1.IH"(2) [OF skip(1) rl [symmetric] skip(2) refl skip(3) skip(4)])
    moreover have "query_loop p start w = query_loop p start y"
      using rl skip by (simp add: query_loop_skip)
    ultimately show ?thesis using fr by (auto intro: same_session_trans)
  next
    case match
    then have "snd (query_loop p start w) = y"
      using rl by (simp add: query_loop_match)
    then show ?thesis using fr by simp
  next
    case leave
    then have "snd (query_loop p start w) = y"
      using rl by (simp add: query_loop_leave)
    then show ?thesis using fr by simp
  qed
qed






lemma write_drain_frame:
  "now (snd (write_drain command w)) = now w"
  "incoming (snd (write_drain command w)) = incoming w"
  "connects (snd (write_drain command w)) = connects w"
  "close_raises (snd (write_drain command w)) = close_raises w"
  "logged (snd (write_drain command w)) = logged w"
  by (auto simp: write_drain_def split: list.splits)




lemma write_drain_sent:
  "sent (snd (write_drain command w)) =
     (if fst (write_drain command w) then sent w @ [command @ [CHR 10]] else sent w)"
  by (auto simp: write_drain_def split: list.splits)

lemma write_drain_same_writes:
  "writes w' = writes w \<Longrightarrow> fst (write_drain command w') = fst (write_drain command w)"
  by (auto simp: write_drain_def split: list.splits)

lemma disconnect_world: "snd (snd (disconnect a w)) = w"
  by (simp add: disconnect_def)

lemma send_query_online:
  assumes "writer a"
  shows "connects (snd (snd (send_query a w command))) = connects w \<and>
         close_raises (snd (snd (send_query a w command))) = close_raises w \<and>
         sent (snd (snd (send_query a w command))) =
           (if fst (write_drain command w) then sent w @ [command @ [CHR 10]] else sent w)"
proof -
  obtain ok w2 where wd: "write_drain command w = (ok, w2)" by (cases "write_drain command w")
  have w2: "connects w2 = connects w" "close_raises w2 = close_raises w"
    "sent w2 = (if ok then sent w @ [command @ [CHR 10]] else sent w)"
    using write_drain_frame(3,4) [of command w] write_drain_sent [of command w] wd by simp_all
  let ?q = "query_loop (get_expected_response_prefix command) (now w2) w2"
  obtain r w3 where ql: "?q = (r, w3)" by (cases ?q)
  have w3: "connects w3 = connects w2" "close_raises w3 = close_raises w2" "sent w3 = sent w2"
    using query_loop_same_session [of w2 "get_expected_response_prefix command" "now w2"] ql
    by (simp_all add: same_session_def)
  show ?thesis
    using assms wd ql w2 w3
    by (cases r; cases ok)
       (auto simp: send_query_def query_failed_def disconnect_def)
qed

section \<open>Connecting\<close>

lemma connect_accepted:
  assumes "connects w = Accepted stream cr # cs"
  shows "\<exists>w1. connect a w = (True, a\<lparr>writer := True\<rparr>, w1) \<and> connects w1 = cs \<and>
           close_raises w1 = cr \<and> writes w1 = writes w \<and> sent w1 = sent w \<and>
           logged w1 = logged w"
proof -
  let ?w0 = "w\<lparr>connects := cs, incoming := map (\<lambda>(t, x). (now w + t, x)) stream,
               close_raises := cr\<rparr>"
  have "same_session ?w0 (clear_loop (now ?w0) ?w0)" by (rule clear_loop_same_session)
  then show ?thesis
    using assms by (simp add: connect_def clear_initial_responses_def same_session_def)
qed

text \<open>
  C6, as the code has it: when \<open>send_query\<close> is called while not connected, it makes
  exactly one connection attempt. If the attempt is refused the call returns \<open>None\<close> at
  once: nothing is written and the next outcome is left untried. If it is accepted, the
  command is written on the new connection (when the write succeeds), and no further
  attempt is made in the same call, whatever happens to the query.
\<close>

theorem send_query_connects_once:
  assumes "\<not> writer a"
  shows "(connects w = Refused # cs \<longrightarrow>
            send_query a w command =
              (Inr None, a, w\<lparr>connects := cs, logged := logged w @ [ConnectFailed]\<rparr>)) \<and>
         (connects w = Accepted stream cr # cs \<longrightarrow>
            connects (snd (snd (send_query a w command))) = cs \<and>
            sent (snd (snd (send_query a w command))) =
              (if fst (write_drain command w) then sent w @ [command @ [CHR 10]] else sent w))"
proof (intro conjI impI)
  assume "connects w = Refused # cs"
  then show "send_query a w command =
      (Inr None, a, w\<lparr>connects := cs, logged := logged w @ [ConnectFailed]\<rparr>)"
    using assms by (simp add: send_query_def connect_def)
next
  assume acc: "connects w = Accepted stream cr # cs"
  from connect_accepted [OF acc, of a] obtain w1 where
    c: "connect a w = (True, a\<lparr>writer := True\<rparr>, w1)" and
    w1: "connects w1 = cs" "writes w1 = writes w" "sent w1 = sent w"
    by blast
  have eq: "send_query a w command = send_query (a\<lparr>writer := True\<rparr>) w1 command"
    using assms c by (simp add: send_query_def)
  have wd: "fst (write_drain command w1) = fst (write_drain command w)"
    using w1(2) by (rule write_drain_same_writes)
  have on: "writer (a\<lparr>writer := True\<rparr>)" by simp
  show "connects (snd (snd (send_query a w command))) = cs"
    using send_query_online [OF on, of w1 command] w1 eq by simp
  show "sent (snd (snd (send_query a w command))) =
      (if fst (write_drain command w) then sent w @ [command @ [CHR 10]] else sent w)"
    using send_query_online [OF on, of w1 command] w1 eq wd by simp
qed

theorem send_query_connects_once_witness:
  "send_query fresh_api (quiet_world\<lparr>connects := [Refused]\<rparr>) CMD_POWER_QUERY =
     (Inr None, fresh_api, quiet_world\<lparr>connects := [], logged := [ConnectFailed]\<rparr>) \<and>
   connects (snd (snd (send_query fresh_api
       (quiet_world\<lparr>connects := [Accepted [(300, Line ''ssp.power.on\<newline>'')] False, Refused]\<rparr>)
       CMD_POWER_QUERY))) = [Refused] \<and>
   sent (snd (snd (send_query fresh_api
       (quiet_world\<lparr>connects := [Accepted [(300, Line ''ssp.power.on\<newline>'')] False, Refused]\<rparr>)
       CMD_POWER_QUERY))) = [''ssp.power\<newline>'']"
proof -
  have nw: "\<not> writer fresh_api" by (simp add: fresh_api_def)
  let ?w1 = "quiet_world\<lparr>connects := [Refused]\<rparr>"
  let ?w2 = "quiet_world\<lparr>connects := [Accepted [(300, Line ''ssp.power.on\<newline>'')] False, Refused]\<rparr>"
  have wd: "fst (write_drain CMD_POWER_QUERY ?w2)" by (simp add: write_drain_def quiet_world_def)
  from send_query_connects_once [OF nw, of ?w1 "[]" CMD_POWER_QUERY]
       send_query_connects_once [OF nw, of ?w2 "[Refused]" CMD_POWER_QUERY
          "[(300, Line ''ssp.power.on\<newline>'')]" False] wd
  show ?thesis by (simp add: quiet_world_def CMD_POWER_QUERY_def)
qed

text \<open>
  C6 as stated fails: with a first attempt that is refused and a second one that would
  be accepted, \<open>send_query\<close> returns \<open>None\<close> after the first; the second outcome is still
  waiting and nothing has been written.
\<close>

theorem send_query_no_retry_counterexample:
  "send_query fresh_api
     (quiet_world\<lparr>connects := [Refused, Accepted [(300, Line ''ssp.power.on\<newline>'')] False]\<rparr>)
     CMD_POWER_QUERY =
   (Inr None, fresh_api,
    quiet_world\<lparr>connects := [Accepted [(300, Line ''ssp.power.on\<newline>'')] False],
                logged := [ConnectFailed]\<rparr>)"
  by (simp add: send_query_def connect_def fresh_api_def quiet_world_def)

section \<open>The initial status dump\<close>






lemma readline_timeout_incoming: "readline timeout w = (None, y) \<Longrightarrow> incoming y = incoming w"
  by (cases "incoming w") (auto simp: readline_def split: if_splits)






section \<open>The poll cycle\<close>

lemma poll_states_shape:
  assumes "poll_states a w = (Inr d, a', w')"
  shows "\<exists>p q v m i.
           d = [(''power_state'', p), (''processor_state'', q), (''volume'', v),
                (''muted'', m), (''input'', i)] \<and>
           (\<not> py_eq q (PInt 2) \<longrightarrow> v = PNone \<and> m = PNone \<and> i = PNone)"
  using assms
  by (auto simp: poll_states_def query_controls_def clear_controls_def dict_get_def Let_def
           split: prod.splits sum.splits if_splits)

lemma async_update_data_shape:
  assumes "fst (async_update_data c w) = Inr d"
  shows "\<exists>p q v m i.
           d = [(''power_state'', p), (''processor_state'', q), (''volume'', v),
                (''muted'', m), (''input'', i),
                (''input_list'',
                   PInputs (case input_list_cached c of None \<Rightarrow> get_input_list | Some l \<Rightarrow> l))] \<and>
           (\<not> py_eq q (PInt 2) \<longrightarrow> v = PNone \<and> m = PNone \<and> i = PNone)"
proof -
  obtain r a' w' where ps: "poll_states (api c) w = (r, a', w')"
    by (cases "poll_states (api c) w")
  show ?thesis
  proof (cases r)
    case (Inl e)
    with ps assms show ?thesis by (simp add: async_update_data_def update_failed_def)
  next
    case (Inr d0)
    from poll_states_shape [OF ps [unfolded Inr]] obtain p q v m i where
      d0: "d0 = [(''power_state'', p), (''processor_state'', q), (''volume'', v),
                 (''muted'', m), (''input'', i)]"
      and off: "\<not> py_eq q (PInt 2) \<longrightarrow> v = PNone \<and> m = PNone \<and> i = PNone"
      by blast
    from ps Inr assms d0 have "d = [(''power_state'', p), (''processor_state'', q), (''volume'', v),
                (''muted'', m), (''input'', i),
                (''input_list'',
                   PInputs (case input_list_cached c of None \<Rightarrow> get_input_list | Some l \<Rightarrow> l))]"
      by (auto simp: async_update_data_def Let_def)
    with off show ?thesis by blast
  qed
qed

text \<open>
  C4: for every snapshot that a poll cycle returns in which \<open>processor_state\<close> is not 2,
  the fields \<open>volume\<close>, \<open>muted\<close> and \<open>input\<close> are the powered-off default \<open>None\<close>,
  whatever the coordinator held before (the snapshot is built from an empty dictionary).
\<close>

theorem powered_off_fields_reset:
  assumes "fst (async_update_data c w) = Inr d"
    and "\<not> py_eq (dict_get d ''processor_state'') (PInt 2)"
  shows "dict_get d ''volume'' = PNone \<and> dict_get d ''muted'' = PNone \<and>
         dict_get d ''input'' = PNone"
proof -
  from async_update_data_shape [OF assms(1)] obtain p q v m i where
    d: "d = [(''power_state'', p), (''processor_state'', q), (''volume'', v),
             (''muted'', m), (''input'', i),
             (''input_list'',
                PInputs (case input_list_cached c of None \<Rightarrow> get_input_list | Some l \<Rightarrow> l))]"
    and off: "\<not> py_eq q (PInt 2) \<longrightarrow> v = PNone \<and> m = PNone \<and> i = PNone"
    by blast
  from assms(2) d have "\<not> py_eq q (PInt 2)" by (simp add: dict_get_def)
  with off d show ?thesis by (simp add: dict_get_def)
qed

theorem powered_off_fields_reset_witness:
  "fst (async_update_data
          (fresh_coordinator
             \<lparr>api := online_api,
              data := Some [(''power_state'', PStr ''on''), (''processor_state'', PInt 2),
                            (''volume'', PFloat (- 42)), (''muted'', PBool True),
                            (''input'', PInt 3)]\<rparr>)
          (quiet_world\<lparr>incoming := [(100, Line ''ssp.power.off\<newline>''),
                                    (200, Line ''ssp.procstate.[0]\<newline>'')]\<rparr>)) =
     Inr [(''power_state'', PStr ''off''), (''processor_state'', PInt 0), (''volume'', PNone),
          (''muted'', PNone), (''input'', PNone), (''input_list'', PInputs get_input_list)] \<and>
   dict_get [(''power_state'', PStr ''off''), (''processor_state'', PInt 0), (''volume'', PNone),
          (''muted'', PNone), (''input'', PNone), (''input_list'', PInputs get_input_list)]
      ''volume'' = PNone"
proof -
  let ?c = "fresh_coordinator
             \<lparr>api := online_api,
              data := Some [(''power_state'', PStr ''on''), (''processor_state'', PInt 2),
                            (''volume'', PFloat (- 42)), (''muted'', PBool True),
                            (''input'', PInt 3)]\<rparr>"
  let ?w = "quiet_world\<lparr>incoming := [(100, Line ''ssp.power.off\<newline>''),
                                    (200, Line ''ssp.procstate.[0]\<newline>'')]\<rparr>"
  let ?d = "[(''power_state'', PStr ''off''), (''processor_state'', PInt 0), (''volume'', PNone),
          (''muted'', PNone), (''input'', PNone), (''input_list'', PInputs get_input_list)]"
  have r: "fst (async_update_data ?c ?w) = Inr ?d" by code_simp
  have off: "\<not> py_eq (dict_get ?d ''processor_state'') (PInt 2)"
    by (simp add: dict_get_def py_eq_def)
  from powered_off_fields_reset [OF r off] r show ?thesis by simp
qed

section \<open>Transport failures during a poll cycle\<close>

lemma closes_quietly_cong:
  "connects w' = connects w \<Longrightarrow> close_raises w' = close_raises w \<Longrightarrow>
   closes_quietly w' = closes_quietly w"
  by (simp add: closes_quietly_def)















text \<open>
  When closing the failed connection raises as well, the exception leaves the handler of
  \<open>send_query\<close> and the poll cycle raises \<open>UpdateFailed\<close>, as its own handler says.
\<close>

lemma update_raises_when_close_raises:
  "fst (async_update_data (fresh_coordinator\<lparr>api := online_api\<rparr>)
          (quiet_world\<lparr>incoming := [(10, Broken)], close_raises := True\<rparr>)) = Inl UpdateFailed"
  by code_simp

section \<open>The power-on sequence\<close>








section \<open>The input list\<close>

text \<open>
  C8 at a first poll cycle against a device that is fully on. The cycle writes
  \<open>ssp.power\<close> and \<open>ssp.procstate\<close> first, then \<open>ssp.vol\<close>, \<open>ssp.mute\<close> and
  \<open>ssp.input\<close>, and nothing else: \<open>ssp.input.list\<close> is never sent, and the input list of
  the snapshot is the list written in \<open>_get_input_list\<close>, not one obtained from the
  device.
\<close>

theorem input_list_is_hard_coded:
  "fst (async_update_data fresh_coordinator device_on_world) =
     Inr [(''power_state'', PStr ''on''), (''processor_state'', PInt 2),
          (''volume'', PFloat (- 42)), (''muted'', PBool False), (''input'', PInt 3),
          (''input_list'',
           PInputs [InputInfo ''Apple TV'' 1, InputInfo ''Video Game'' 2,
                    InputInfo ''HDMI 3'' 3])] \<and>
   sent (snd (snd (async_update_data fresh_coordinator device_on_world))) =
     [''ssp.power\<newline>'', ''ssp.procstate\<newline>'', ''ssp.vol\<newline>'', ''ssp.mute\<newline>'',
      ''ssp.input\<newline>'']"
  by code_simp

text \<open>
  The list is computed on the first cycle and the cached value is used from then on.
\<close>

lemma input_list_cached_after_cycle:
  assumes "async_update_data c w = (Inr d, c', w')"
  shows "input_list_cached c' =
           Some (case input_list_cached c of None \<Rightarrow> get_input_list | Some l \<Rightarrow> l) \<and>
         dict_get d ''input_list'' =
           PInputs (case input_list_cached c of None \<Rightarrow> get_input_list | Some l \<Rightarrow> l)"
proof -
  from assms have "fst (async_update_data c w) = Inr d" by simp
  from async_update_data_shape [OF this] have "dict_get d ''input_list'' =
      PInputs (case input_list_cached c of None \<Rightarrow> get_input_list | Some l \<Rightarrow> l)"
    by (auto simp: dict_get_def)
  moreover from assms have "input_list_cached c' =
      Some (case input_list_cached c of None \<Rightarrow> get_input_list | Some l \<Rightarrow> l)"
    by (auto simp: async_update_data_def update_failed_def Let_def split: prod.splits sum.splits)
  ultimately show ?thesis by simp
qed

text \<open>With the processor not fully on, only the two state queries are written.\<close>

lemma standby_cycle_queries_states_only:
  "sent (snd (snd (async_update_data online_coordinator
      (quiet_world\<lparr>incoming := [(100, Line ''ssp.power.off\<newline>''),
                                (200, Line ''ssp.procstate.[0]\<newline>'')]\<rparr>)))) =
     [''ssp.power\<newline>'', ''ssp.procstate\<newline>'']"
  by code_simp

end
